theory Spec2Isabelle
  imports Complex_Main "HOL-Library.Multiset"
begin

section \<open>Numbers: numpy float64 values\<close>

text \<open>
  The program computes on numpy \<open>float64\<close> values held in pandas tables. A value is
  either a finite number, one of the two infinities, or NaN (which pandas also uses for
  a missing entry). Finite arithmetic is taken exact (no rounding, no overflow) and zero
  is unsigned (read as \<open>+0.0\<close>); the special values follow IEEE 754 as numpy applies
  it: a division by zero raises nothing and yields an infinity or NaN.
\<close>

datatype npfloat = Fin real | PInf | NInf | NaN

text \<open>
  Errors: the four error kinds the specification names, and the two Python exceptions
  that the modelled code paths raise (\<open>ValueError\<close>, \<open>ZeroDivisionError\<close>).
\<close>

datatype error =
    InsufficientDataError | DimensionMismatchError | InvalidParameterError
  | OptimizationFailedError | ValueError | ZeroDivisionError

fun isnan :: "npfloat \<Rightarrow> bool" where
  "isnan NaN = True"
| "isnan _ = False"

fun isfinite :: "npfloat \<Rightarrow> bool" where
  "isfinite (Fin _) = True"
| "isfinite _ = False"

text \<open>The infinity with the sign of a real; NaN for zero (\<open>0 * inf\<close>, \<open>0 / 0\<close>).\<close>

definition inf_of_sign :: "real \<Rightarrow> npfloat" where
  "inf_of_sign s = (if 0 < s then PInf else if s < 0 then NInf else NaN)"

fun fneg :: "npfloat \<Rightarrow> npfloat" where
  "fneg (Fin a) = Fin (- a)"
| "fneg PInf = NInf"
| "fneg NInf = PInf"
| "fneg NaN = NaN"

fun fadd :: "npfloat \<Rightarrow> npfloat \<Rightarrow> npfloat" where
  "fadd NaN _ = NaN"
| "fadd _ NaN = NaN"
| "fadd (Fin a) (Fin b) = Fin (a + b)"
| "fadd (Fin _) PInf = PInf"
| "fadd (Fin _) NInf = NInf"
| "fadd PInf (Fin _) = PInf"
| "fadd NInf (Fin _) = NInf"
| "fadd PInf PInf = PInf"
| "fadd NInf NInf = NInf"
| "fadd PInf NInf = NaN"
| "fadd NInf PInf = NaN"

definition fsub :: "npfloat \<Rightarrow> npfloat \<Rightarrow> npfloat" where
  "fsub a b = fadd a (fneg b)"

fun fmul :: "npfloat \<Rightarrow> npfloat \<Rightarrow> npfloat" where
  "fmul NaN _ = NaN"
| "fmul _ NaN = NaN"
| "fmul (Fin a) (Fin b) = Fin (a * b)"
| "fmul (Fin a) PInf = inf_of_sign a"
| "fmul (Fin a) NInf = inf_of_sign (- a)"
| "fmul PInf (Fin b) = inf_of_sign b"
| "fmul NInf (Fin b) = inf_of_sign (- b)"
| "fmul PInf PInf = PInf"
| "fmul NInf NInf = PInf"
| "fmul PInf NInf = NInf"
| "fmul NInf PInf = NInf"

fun fdiv :: "npfloat \<Rightarrow> npfloat \<Rightarrow> npfloat" where
  "fdiv NaN _ = NaN"
| "fdiv _ NaN = NaN"
| "fdiv (Fin a) (Fin b) = (if b = 0 then inf_of_sign a else Fin (a / b))"
| "fdiv (Fin _) PInf = Fin 0"
| "fdiv (Fin _) NInf = Fin 0"
| "fdiv PInf (Fin b) = (if 0 \<le> b then PInf else NInf)"
| "fdiv NInf (Fin b) = (if 0 \<le> b then NInf else PInf)"
| "fdiv PInf PInf = NaN"
| "fdiv PInf NInf = NaN"
| "fdiv NInf PInf = NaN"
| "fdiv NInf NInf = NaN"

fun fsqrt :: "npfloat \<Rightarrow> npfloat" where
  "fsqrt (Fin a) = (if a < 0 then NaN else Fin (sqrt a))"
| "fsqrt PInf = PInf"
| "fsqrt NInf = NaN"
| "fsqrt NaN = NaN"


text \<open>\<open>np.sum\<close> of a vector.\<close>

fun fsum :: "npfloat list \<Rightarrow> npfloat" where
  "fsum [] = Fin 0"
| "fsum (x # xs) = fadd x (fsum xs)"

section \<open>Tables: pandas DataFrame\<close>

text \<open>
  A DataFrame of prices or returns: \<open>ndates\<close> rows (one per date, in date order) and
  one column per asset, stored column by column. In a well-formed frame every column
  has \<open>ndates\<close> entries.
\<close>

record frame =
  ndates :: nat
  series :: "npfloat list list"

definition wf_frame :: "frame \<Rightarrow> bool" where
  "wf_frame df = (\<forall>c \<in> set (series df). length c = ndates df)"

text \<open>
  \<open>DataFrame.pct_change()\<close> computes \<open>data / data.shift(1) - 1\<close> column by column.
  Before that, pandas up to 2.x fills a missing price with the last valid one
  (\<open>fill_method = 'pad'\<close>), pandas 3 does not; the source calls it with the default of
  the installed library, so the default is a parameter of the model.
\<close>

datatype fill_method = Pad | NoFill

fun ffill_from :: "npfloat \<Rightarrow> npfloat list \<Rightarrow> npfloat list" where
  "ffill_from prev [] = []"
| "ffill_from prev (x # xs) =
     (if isnan x then prev # ffill_from prev xs else x # ffill_from x xs)"

definition ffill :: "npfloat list \<Rightarrow> npfloat list" where
  "ffill col = ffill_from NaN col"

definition shift1 :: "npfloat list \<Rightarrow> npfloat list" where
  "shift1 col = take (length col) (NaN # col)"

definition prefill :: "fill_method \<Rightarrow> npfloat list \<Rightarrow> npfloat list" where
  "prefill fm col = (case fm of Pad \<Rightarrow> ffill col | NoFill \<Rightarrow> col)"

definition pct_change_col :: "fill_method \<Rightarrow> npfloat list \<Rightarrow> npfloat list" where
  "pct_change_col fm col =
     map2 (\<lambda>cur prev. fsub (fdiv cur prev) (Fin 1)) (prefill fm col) (shift1 (prefill fm col))"

definition pct_change :: "fill_method \<Rightarrow> frame \<Rightarrow> frame" where
  "pct_change fm df = df\<lparr>series := map (pct_change_col fm) (series df)\<rparr>"

text \<open>
  \<open>DataFrame.dropna()\<close>: keeps the rows in which no column is NaN (an infinity is not
  missing), for all columns at once.
\<close>

definition complete_row :: "frame \<Rightarrow> nat \<Rightarrow> bool" where
  "complete_row df = (\<lambda>t. \<forall>c \<in> set (series df). \<not> isnan (c ! t))"

definition kept_rows :: "frame \<Rightarrow> nat list" where
  "kept_rows df = filter (complete_row df) [0..<ndates df]"

definition dropna :: "frame \<Rightarrow> frame" where
  "dropna df =
     \<lparr>ndates = length (kept_rows df),
      series = map (\<lambda>c. map (\<lambda>t. c ! t) (kept_rows df)) (series df)\<rparr>"

subsection \<open>Return Calculator\<close>

text \<open>
  \<^verbatim>\<open>def calculate_returns(prices): return prices.pct_change().dropna()\<close>
  Neither call raises on a table of floats, so the result is always a value.
\<close>

definition calculate_returns :: "fill_method \<Rightarrow> frame \<Rightarrow> error + frame" where
  "calculate_returns fm prices = Inr (dropna (pct_change fm prices))"

subsection \<open>Portfolio Statistics Evaluator\<close>

text \<open>
  \<open>returns.mean()\<close>: the column means, NaN entries skipped (\<open>skipna = True\<close>): the sum
  of the present values over their count, NaN when there is none.
\<close>

definition valid :: "npfloat list \<Rightarrow> npfloat list" where
  "valid col = filter (\<lambda>v. \<not> isnan v) col"

definition mean_col :: "npfloat list \<Rightarrow> npfloat" where
  "mean_col col = fdiv (fsum (valid col)) (Fin (real (length (valid col))))"

text \<open>\<open>np.dot\<close> of two vectors, and of a matrix (a list of rows) with a vector.\<close>

definition dot :: "npfloat list \<Rightarrow> npfloat list \<Rightarrow> npfloat" where
  "dot u v = fsum (map2 fmul u v)"

definition matvec :: "npfloat list list \<Rightarrow> npfloat list \<Rightarrow> npfloat list" where
  "matvec m v = map (\<lambda>row. dot row v) m"

text \<open>
  \<open>returns.cov()\<close>. On a table without NaN pandas calls \<open>np.cov(mat.T, ddof=1)\<close>: every
  column is centred on its plain mean, the products are summed, and the sum is multiplied
  by \<open>1 / fact\<close> with \<open>fact = N - 1\<close>, set to \<open>0.0\<close> when that is not positive
  (the subtraction on natural numbers below stops at zero likewise).
\<close>

definition plain_mean :: "npfloat list \<Rightarrow> npfloat" where
  "plain_mean col = fdiv (fsum col) (Fin (real (length col)))"

definition centred :: "npfloat list \<Rightarrow> npfloat list" where
  "centred col = map (\<lambda>v. fsub v (plain_mean col)) col"

definition np_cov_entry :: "npfloat list \<Rightarrow> npfloat list \<Rightarrow> npfloat" where
  "np_cov_entry ci cj =
     fmul (dot (centred ci) (centred cj)) (fdiv (Fin 1) (Fin (real (length ci - 1))))"

text \<open>
  On a table with a NaN pandas takes the pairwise path (\<open>nancorr\<close>): for each pair of
  columns, only the dates where both are finite count; the covariance of these
  observations, over their number minus one; NaN when there is none or only one.
\<close>

definition pairwise_obs :: "npfloat list \<Rightarrow> npfloat list \<Rightarrow> (npfloat \<times> npfloat) list" where
  "pairwise_obs ci cj = filter (\<lambda>(u, v). isfinite u \<and> isfinite v) (zip ci cj)"

definition nancorr_entry :: "npfloat list \<Rightarrow> npfloat list \<Rightarrow> npfloat" where
  "nancorr_entry ci cj =
     (if length (pairwise_obs ci cj) < 2 then NaN
      else fdiv (dot (centred (map fst (pairwise_obs ci cj))) (centred (map snd (pairwise_obs ci cj))))
                (Fin (real (length (pairwise_obs ci cj) - 1))))"

definition has_nan :: "frame \<Rightarrow> bool" where
  "has_nan df = (\<exists>c \<in> set (series df). \<exists>v \<in> set c. isnan v)"

definition cov :: "frame \<Rightarrow> npfloat list list" where
  "cov df =
     (if has_nan df
      then map (\<lambda>ci. map (\<lambda>cj. nancorr_entry ci cj) (series df)) (series df)
      else map (\<lambda>ci. map (\<lambda>cj. np_cov_entry ci cj) (series df)) (series df))"

definition scale :: "npfloat list list \<Rightarrow> npfloat \<Rightarrow> npfloat list list" where
  "scale m k = map (map (\<lambda>v. fmul v k)) m"

text \<open>
  \<^verbatim>\<open>def portfolio_performance(weights, returns):
      portfolio_return = np.sum(returns.mean() * weights) * 252
      portfolio_std = np.sqrt(np.dot(weights.T, np.dot(returns.cov() * 252, weights)))
      return portfolio_return, portfolio_std\<close>
  A weight vector whose length is not the number of columns makes the elementwise product
  or the matrix product raise \<open>ValueError\<close>.
\<close>

definition portfolio_performance :: "npfloat list \<Rightarrow> frame \<Rightarrow> error + (npfloat \<times> npfloat)" where
  "portfolio_performance weights returns =
     (if length weights \<noteq> length (series returns) then Inl ValueError
      else Inr (fmul (fsum (map2 fmul (map mean_col (series returns)) weights)) (Fin 252),
                fsqrt (dot weights (matvec (scale (cov returns) (Fin 252)) weights))))"

subsection \<open>Sharpe Optimizer\<close>

text \<open>
  \<^verbatim>\<open>def negative_sharpe_ratio(weights, returns, risk_free_rate=0.01):
      p_return, p_std = portfolio_performance(weights, returns)
      return -(p_return - risk_free_rate) / p_std\<close>
\<close>

definition negative_sharpe_ratio :: "npfloat list \<Rightarrow> frame \<Rightarrow> npfloat \<Rightarrow> error + npfloat" where
  "negative_sharpe_ratio weights returns risk_free_rate =
     (case portfolio_performance weights returns of
        Inl e \<Rightarrow> Inl e
      | Inr (p_return, p_std) \<Rightarrow> Inr (fdiv (fneg (fsub p_return risk_free_rate)) p_std))"

text \<open>
  The result object of \<open>scipy.optimize.minimize\<close>: the last iterate \<open>x\<close>, whether the
  solver converged, and its status code and message.
\<close>

record optimize_result =
  opt_x :: "npfloat list"
  opt_success :: bool
  opt_status :: int
  opt_message :: string

text \<open>
  The SLSQP solver is library code: it is a parameter of the model, called with the
  objective, the start point, the bounds and the equality constraint the source builds.
\<close>

type_synonym solver =
  "(npfloat list \<Rightarrow> error + npfloat) \<Rightarrow> npfloat list \<Rightarrow> (npfloat \<times> npfloat) list
     \<Rightarrow> (npfloat list \<Rightarrow> npfloat) \<Rightarrow> error + optimize_result"

text \<open>
  \<^verbatim>\<open>def max_sharpe_ratio(returns):
      num_assets = returns.shape[1]
      args = (returns,)
      constraints = ({'type': 'eq', 'fun': lambda x: np.sum(x) - 1})
      bounds = tuple((0, 1) for _ in range(num_assets))
      result = minimize(negative_sharpe_ratio, num_assets * [1. / num_assets], args=args,
                        method='SLSQP', bounds=bounds, constraints=constraints)
      return result\<close>
  With no column, \<open>1. / num_assets\<close> raises \<open>ZeroDivisionError\<close>. The objective is called
  with \<open>args = (returns,)\<close> only, so its \<open>risk_free_rate\<close> is the default \<open>0.01\<close>.
\<close>

definition max_sharpe_ratio :: "solver \<Rightarrow> frame \<Rightarrow> error + optimize_result" where
  "max_sharpe_ratio minimize returns =
     (if length (series returns) = 0 then Inl ZeroDivisionError
      else minimize (\<lambda>weights. negative_sharpe_ratio weights returns (Fin (1 / 100)))
             (replicate (length (series returns)) (Fin (1 / real (length (series returns)))))
             (replicate (length (series returns)) (Fin 0, Fin 1))
             (\<lambda>v. fsub (fsum v) (Fin 1)))"

subsection \<open>Risk Estimator\<close>

text \<open>
  \<open>returns.quantile(q, axis=0)\<close> first checks \<open>0 <= q <= 1\<close> and raises \<open>ValueError\<close>
  otherwise (a NaN fails the comparison). Then, per column, the NaN entries are dropped,
  the rest is sorted and numpy's linear method is applied: the virtual index is
  \<open>(n - 1) * q\<close>, the two neighbours are the entries at its floor and the next one (both
  the last entry from \<open>n - 1\<close> on, both the first below \<open>0\<close>), and the result is their
  interpolation \<open>_lerp\<close>. A column without a value gives NaN.
\<close>

fun fle :: "npfloat \<Rightarrow> npfloat \<Rightarrow> bool" where
  "fle NInf _ = True"
| "fle _ PInf = True"
| "fle (Fin a) (Fin b) = (a \<le> b)"
| "fle _ _ = False"

fun np_insort :: "npfloat \<Rightarrow> npfloat list \<Rightarrow> npfloat list" where
  "np_insort v [] = [v]"
| "np_insort v (u # us) = (if fle v u then v # u # us else u # np_insort v us)"

fun np_sort :: "npfloat list \<Rightarrow> npfloat list" where
  "np_sort [] = []"
| "np_sort (v # vs) = np_insort v (np_sort vs)"

definition lerp :: "npfloat \<Rightarrow> npfloat \<Rightarrow> real \<Rightarrow> npfloat" where
  "lerp a b t =
     (if 1 / 2 \<le> t then fsub b (fmul (fsub b a) (Fin (1 - t)))
      else fadd a (fmul (fsub b a) (Fin t)))"

definition linear_quantile :: "npfloat list \<Rightarrow> real \<Rightarrow> npfloat" where
  "linear_quantile arr q =
     (if real (length arr) - 1 \<le> real (length arr - 1) * q
      then lerp (last arr) (last arr) (real (length arr - 1) * q + 1)
      else if real (length arr - 1) * q < 0
      then lerp (hd arr) (hd arr) (real (length arr - 1) * q)
      else lerp (arr ! nat \<lfloor>real (length arr - 1) * q\<rfloor>)
                (arr ! (nat \<lfloor>real (length arr - 1) * q\<rfloor> + 1))
                (real (length arr - 1) * q - real_of_int \<lfloor>real (length arr - 1) * q\<rfloor>))"

definition quantile_col :: "npfloat list \<Rightarrow> real \<Rightarrow> npfloat" where
  "quantile_col col q = (if valid col = [] then NaN else linear_quantile (np_sort (valid col)) q)"

text \<open>
  \<^verbatim>\<open>def calculate_var(returns, confidence_level=0.05):
      return returns.quantile(confidence_level, axis=0)\<close>
\<close>

definition calculate_var :: "frame \<Rightarrow> npfloat \<Rightarrow> error + npfloat list" where
  "calculate_var returns confidence_level =
     (case confidence_level of
        Fin q \<Rightarrow> (if 0 \<le> q \<and> q \<le> 1 then Inr (map (\<lambda>col. quantile_col col q) (series returns))
                  else Inl ValueError)
      | _ \<Rightarrow> Inl ValueError)"

subsection \<open>The script\<close>

text \<open>
  The top-level statements of the module, from the downloaded price table on. The
  module variable \<open>risk_free_rate\<close> (set to \<open>0.01\<close> in the source) and the value of the
  slider are inputs here, so that their influence can be stated.
  \<^verbatim>\<open>returns = calculate_returns(data)
  optimal_portfolio = max_sharpe_ratio(returns)
  optimal_weights = optimal_portfolio.x
  opt_return, opt_std = portfolio_performance(optimal_weights, returns)
  opt_sharpe = (opt_return - risk_free_rate) / opt_std
  VaR_95 = calculate_var(returns, 0.05)
  opt_sharpe_adjusted = (opt_return - risk_free_rate_slider / 100) / opt_std\<close>
\<close>

definition sharpe :: "npfloat \<Rightarrow> npfloat \<Rightarrow> npfloat \<Rightarrow> npfloat" where
  "sharpe opt_return rate opt_std = fdiv (fsub opt_return rate) opt_std"

record dashboard =
  optimal_weights :: "npfloat list"
  opt_return :: npfloat
  opt_std :: npfloat
  opt_sharpe :: npfloat
  VaR_95 :: "npfloat list"
  opt_sharpe_adjusted :: npfloat

definition script :: "solver \<Rightarrow> fill_method \<Rightarrow> frame \<Rightarrow> npfloat \<Rightarrow> npfloat \<Rightarrow> error + dashboard" where
  "script minimize fm data risk_free_rate risk_free_rate_slider =
     (case calculate_returns fm data of
        Inl e \<Rightarrow> Inl e
      | Inr returns \<Rightarrow>
     (case max_sharpe_ratio minimize returns of
        Inl e \<Rightarrow> Inl e
      | Inr optimal_portfolio \<Rightarrow>
     (case portfolio_performance (opt_x optimal_portfolio) returns of
        Inl e \<Rightarrow> Inl e
      | Inr (ret, std) \<Rightarrow>
     (case calculate_var returns (Fin (5 / 100)) of
        Inl e \<Rightarrow> Inl e
      | Inr var \<Rightarrow>
          Inr \<lparr>optimal_weights = opt_x optimal_portfolio,
               opt_return = ret,
               opt_std = std,
               opt_sharpe = sharpe ret risk_free_rate std,
               VaR_95 = var,
               opt_sharpe_adjusted = sharpe ret (fdiv risk_free_rate_slider (Fin 100)) std\<rparr>))))"

subsection \<open>A solver run that does not converge\<close>

text \<open>
  What \<open>minimize\<close> reports when SLSQP stops at its iteration limit, here already at the
  start point: a result object with \<open>success = False\<close> and status 9. Nothing is raised.
\<close>

definition iteration_limit_solver :: solver where
  "iteration_limit_solver f x0 bounds eq_con =
     Inr \<lparr>opt_x = x0, opt_success = False, opt_status = 9,
          opt_message = ''Iteration limit reached''\<rparr>"

section \<open>The specification's formulas\<close>











section \<open>Properties\<close>

subsection \<open>The change table and short price series\<close>

lemma shift1_length: "length (shift1 col) = length col"
  by (simp add: shift1_def)

lemma ffill_from_length: "length (ffill_from v col) = length col"
  by (induction col arbitrary: v) auto

lemma prefill_length: "length (prefill fm col) = length col"
  by (cases fm) (simp_all add: prefill_def ffill_def ffill_from_length)

lemma pct_change_col_length: "length (pct_change_col fm col) = length col"
  by (simp add: pct_change_col_def shift1_length prefill_length)

lemma shift1_nth_0: "col \<noteq> [] \<Longrightarrow> shift1 col ! 0 = NaN"
  by (cases col) (simp_all add: shift1_def)


lemma fsub_NaN_left: "fsub NaN b = NaN"
  by (simp add: fsub_def)

lemma fdiv_NaN_right: "fdiv a NaN = NaN"
  by (cases a) simp_all

lemma pct_change_col_nth_0: "col \<noteq> [] \<Longrightarrow> pct_change_col fm col ! 0 = NaN"
proof -
  assume "col \<noteq> []"
  then have "prefill fm col \<noteq> []"
    using prefill_length [of fm col] by auto
  then show ?thesis
    by (simp add: pct_change_col_def shift1_length shift1_nth_0 fdiv_NaN_right fsub_NaN_left)
qed









lemma pct_change_series: "series (pct_change fm df) = map (pct_change_col fm) (series df)"
  by (simp add: pct_change_def)

lemma pct_change_ndates: "ndates (pct_change fm df) = ndates df"
  by (simp add: pct_change_def)

lemma pct_change_wf: "wf_frame df \<Longrightarrow> wf_frame (pct_change fm df)"
  by (auto simp: wf_frame_def pct_change_series pct_change_ndates pct_change_col_length)


lemma dropna_wf: "wf_frame (dropna df)"
  by (simp add: wf_frame_def dropna_def)


lemma first_row_incomplete:
  assumes wf: "wf_frame df" and n: "0 < ndates df" and k: "series df \<noteq> []"
  shows "\<not> complete_row (pct_change fm df) 0"
proof -
  from k obtain c where c: "c \<in> set (series df)"
    by (cases "series df") auto
  with wf n have "c \<noteq> []"
    by (auto simp: wf_frame_def)
  then have "pct_change_col fm c ! 0 = NaN"
    by (rule pct_change_col_nth_0)
  moreover have "pct_change_col fm c \<in> set (series (pct_change fm df))"
    using c by (simp add: pct_change_series)
  ultimately show ?thesis
    unfolding complete_row_def by force
qed

lemma short_series_kept_rows:
  assumes wf: "wf_frame df" and n: "ndates df < 2" and k: "series df \<noteq> []"
  shows "kept_rows (pct_change fm df) = []"
proof (cases "ndates df = 0")
  case True
  then show ?thesis by (simp add: kept_rows_def pct_change_ndates)
next
  case False
  with n have n1: "ndates df = 1" by simp
  then have "\<not> complete_row (pct_change fm df) 0"
    using first_row_incomplete [OF wf _ k] by simp
  then show ?thesis
    by (simp add: kept_rows_def pct_change_ndates n1)
qed

text \<open>
  Claim C6, as the code behaves: on a price table with fewer than two dates (and at least
  one asset) \<open>calculate_returns\<close> raises nothing. It returns the return table with the
  same asset columns and no rows; \<open>InsufficientDataError\<close> is never produced.
\<close>

theorem calculate_returns_short_series:
  assumes "wf_frame prices" and "ndates prices < 2" and "series prices \<noteq> []"
  shows "calculate_returns fm prices =
         Inr \<lparr>ndates = 0, series = map (\<lambda>c. []) (series prices)\<rparr>"
  using short_series_kept_rows [OF assms]
  by (simp add: calculate_returns_def dropna_def pct_change_series)

text \<open>
  A one-row price table of two assets: the result is a value, not
  \<open>InsufficientDataError\<close>, under either default of the library.
\<close>

theorem calculate_returns_one_row_returns:
  "calculate_returns Pad \<lparr>ndates = 1, series = [[Fin 100], [Fin 50]]\<rparr> \<noteq> Inl InsufficientDataError
   \<and> calculate_returns NoFill \<lparr>ndates = 1, series = [[Fin 100], [Fin 50]]\<rparr> \<noteq> Inl InsufficientDataError"
  by (simp add: calculate_returns_def)

theorem calculate_returns_short_series_witness:
  "calculate_returns NoFill \<lparr>ndates = 1, series = [[Fin 100], [Fin 50]]\<rparr> =
   Inr \<lparr>ndates = 0, series = [[], []]\<rparr>"
  using calculate_returns_short_series [of "\<lparr>ndates = 1, series = [[Fin 100], [Fin 50]]\<rparr>" NoFill]
  by (simp add: wf_frame_def)

subsection \<open>The return table\<close>












text \<open>
  A missing price inside the series: with the padding default its date is kept, with a
  return of zero; without padding the date and the next one are dropped.
\<close>

lemma missing_price_depends_on_fill:
  "calculate_returns Pad \<lparr>ndates = 3, series = [[Fin 100, NaN, Fin 102]]\<rparr>
     = Inr \<lparr>ndates = 2, series = [[Fin 0, Fin (2 / 100)]]\<rparr>
   \<and> calculate_returns NoFill \<lparr>ndates = 3, series = [[Fin 100, NaN, Fin 102]]\<rparr>
     = Inr \<lparr>ndates = 0, series = [[]]\<rparr>"
  by (simp add: calculate_returns_def dropna_def pct_change_def kept_rows_def
      complete_row_def pct_change_col_def prefill_def ffill_def shift1_def fsub_def
      eval_nat_numeral)

subsection \<open>The portfolio statistics\<close>

lemma valid_finite: "valid (map Fin xs) = map Fin xs"
  by (induction xs) (simp_all add: valid_def)




































subsection \<open>Zero volatility\<close>

lemma zero_frame_performance:
  "portfolio_performance [Fin 1] \<lparr>ndates = 2, series = [[Fin 0, Fin 0]]\<rparr> = Inr (Fin 0, Fin 0)"
  by (simp add: portfolio_performance_def mean_col_def valid_def cov_def has_nan_def
      np_cov_entry_def centred_def plain_mean_def dot_def matvec_def scale_def fsub_def)

text \<open>
  Claim C4, as the code behaves: when the volatility is exactly zero the division is not
  guarded. The float division raises nothing; the Sharpe ratio of the script is
  \<open>+inf\<close> for a positive excess return, \<open>-inf\<close> for a negative one and NaN, not \<open>0\<close>, when
  the excess return is zero; \<open>negative_sharpe_ratio\<close> returns the opposite sign.
\<close>

theorem zero_volatility_ratio:
  assumes "portfolio_performance w R = Inr (Fin a, Fin 0)"
  shows "negative_sharpe_ratio w R (Fin r) =
           Inr (if r < a then NInf else if a < r then PInf else NaN)
         \<and> sharpe (Fin a) (Fin r) (Fin 0) =
           (if r < a then PInf else if a < r then NInf else NaN)"
  using assms
  by (simp add: negative_sharpe_ratio_def sharpe_def fsub_def inf_of_sign_def)

theorem zero_volatility_ratio_witness:
  "negative_sharpe_ratio [Fin 1] \<lparr>ndates = 2, series = [[Fin 0, Fin 0]]\<rparr> (Fin (1 / 100)) = Inr PInf
   \<and> sharpe (Fin 0) (Fin (1 / 100)) (Fin 0) = NInf"
  using zero_volatility_ratio [OF zero_frame_performance, of "1 / 100"] by simp

text \<open>
  One asset whose two returns are both zero, a single weight 1 and a rate of zero (the
  slider at its minimum): return and volatility are both zero and the ratio is NaN,
  where the claim puts \<open>0\<close>.
\<close>

theorem zero_excess_return_is_nan:
  "portfolio_performance [Fin 1] \<lparr>ndates = 2, series = [[Fin 0, Fin 0]]\<rparr> = Inr (Fin 0, Fin 0)
   \<and> negative_sharpe_ratio [Fin 1] \<lparr>ndates = 2, series = [[Fin 0, Fin 0]]\<rparr> (Fin 0) = Inr NaN
   \<and> sharpe (Fin 0) (fdiv (Fin 0) (Fin 100)) (Fin 0) = NaN"
  by (simp add: zero_frame_performance negative_sharpe_ratio_def sharpe_def fsub_def inf_of_sign_def)

subsection \<open>The Sharpe ratio and the risk-free rate\<close>








lemma isfinite_reciprocal: "isfinite (fdiv (Fin 1) (Fin d)) \<longleftrightarrow> d \<noteq> 0"
  by (simp add: inf_of_sign_def)







subsection \<open>The optimizer's result\<close>

lemma sample_returns:
  "calculate_returns fm \<lparr>ndates = 3, series = [[Fin 100, Fin 100, Fin 101], [Fin 50, Fin 51, Fin 51]]\<rparr>
   = Inr \<lparr>ndates = 2, series = [[Fin 0, Fin (1 / 100)], [Fin (1 / 50), Fin 0]]\<rparr>"
  by (cases fm)
    (simp_all add: calculate_returns_def dropna_def pct_change_def kept_rows_def complete_row_def
      pct_change_col_def prefill_def ffill_def shift1_def fsub_def eval_nat_numeral)

text \<open>
  Claim C5, as the code behaves: \<open>max_sharpe_ratio\<close> returns the result object of the
  solver as it is, converged or not, and the script takes its \<open>x\<close> as the optimal
  weights without looking at \<open>success\<close>. No \<open>OptimizationFailedError\<close> is raised.
\<close>

theorem max_sharpe_ratio_passes_result:
  assumes "calculate_returns fm data = Inr R" and "series R \<noteq> []"
    and "minimize (\<lambda>weights. negative_sharpe_ratio weights R (Fin (1 / 100)))
           (replicate (length (series R)) (Fin (1 / real (length (series R)))))
           (replicate (length (series R)) (Fin 0, Fin 1))
           (\<lambda>v. fsub (fsum v) (Fin 1)) = Inr res"
  shows "max_sharpe_ratio minimize R = Inr res
         \<and> (\<forall>d. script minimize fm data rate slider = Inr d \<longrightarrow> optimal_weights d = opt_x res)"
  using assms
  by (auto simp add: max_sharpe_ratio_def script_def split: sum.splits prod.splits)

theorem max_sharpe_ratio_passes_result_witness:
  "max_sharpe_ratio iteration_limit_solver
     \<lparr>ndates = 2, series = [[Fin 0, Fin (1 / 100)], [Fin (1 / 50), Fin 0]]\<rparr>
   = Inr \<lparr>opt_x = [Fin (1 / 2), Fin (1 / 2)], opt_success = False, opt_status = 9,
          opt_message = ''Iteration limit reached''\<rparr>"
proof -
  have "iteration_limit_solver
          (\<lambda>weights. negative_sharpe_ratio weights
             \<lparr>ndates = 2, series = [[Fin 0, Fin (1 / 100)], [Fin (1 / 50), Fin 0]]\<rparr> (Fin (1 / 100)))
          (replicate (length (series \<lparr>ndates = 2, series = [[Fin 0, Fin (1 / 100)], [Fin (1 / 50), Fin 0]]\<rparr>))
             (Fin (1 / real (length (series \<lparr>ndates = 2, series = [[Fin 0, Fin (1 / 100)], [Fin (1 / 50), Fin 0]]\<rparr>)))))
          (replicate (length (series \<lparr>ndates = 2, series = [[Fin 0, Fin (1 / 100)], [Fin (1 / 50), Fin 0]]\<rparr>)) (Fin 0, Fin 1))
          (\<lambda>v. fsub (fsum v) (Fin 1))
        = Inr \<lparr>opt_x = [Fin (1 / 2), Fin (1 / 2)], opt_success = False, opt_status = 9,
          opt_message = ''Iteration limit reached''\<rparr>"
    by (simp add: iteration_limit_solver_def numeral_2_eq_2)
  from max_sharpe_ratio_passes_result
         [where minimize = iteration_limit_solver and fm = NoFill, OF sample_returns _ this, THEN conjunct1]
  show ?thesis by simp
qed

text \<open>
  A run that stops at the iteration limit: the caller receives the unconverged result,
  not an error.
\<close>

theorem unconverged_result_returned:
  "max_sharpe_ratio iteration_limit_solver \<lparr>ndates = 1, series = [[Fin (1 / 100)]]\<rparr>
   = Inr \<lparr>opt_x = [Fin 1], opt_success = False, opt_status = 9,
          opt_message = ''Iteration limit reached''\<rparr>"
  by (simp add: max_sharpe_ratio_def iteration_limit_solver_def)

text \<open>
  Claim C9: the weights the script obtains do not depend on the configured risk-free
  rate nor on the slider: \<open>max_sharpe_ratio\<close> takes no rate and hands the solver the
  objective at the default \<open>0.01\<close>, so two runs on the same prices that differ only in the
  two rates end with the same weights (or the same error).
\<close>

theorem weights_independent_of_rate:
  "max_sharpe_ratio minimize R =
     (if series R = [] then Inl ZeroDivisionError
      else minimize (\<lambda>weights. negative_sharpe_ratio weights R (Fin (1 / 100)))
             (replicate (length (series R)) (Fin (1 / real (length (series R)))))
             (replicate (length (series R)) (Fin 0, Fin 1))
             (\<lambda>v. fsub (fsum v) (Fin 1)))
   \<and> map_sum id optimal_weights (script minimize fm data r1 s1)
     = map_sum id optimal_weights (script minimize fm data r2 s2)"
  by (simp add: max_sharpe_ratio_def script_def split: sum.splits prod.splits)

theorem weights_independent_of_rate_witness:
  "map_sum id optimal_weights
     (script iteration_limit_solver Pad \<lparr>ndates = 2, series = [[Fin 100, Fin 101]]\<rparr> (Fin (1 / 100)) (Fin 1))
   = map_sum id optimal_weights
     (script iteration_limit_solver Pad \<lparr>ndates = 2, series = [[Fin 100, Fin 101]]\<rparr> (Fin (3 / 100)) (Fin 5))"
  by (rule weights_independent_of_rate [THEN conjunct2])

subsection \<open>The confidence level\<close>

text \<open>
  Claim C7, as the code behaves: \<open>calculate_var\<close> fails, with the library's
  \<open>ValueError\<close>, exactly when the confidence level is outside the closed interval
  \<open>[0, 1]\<close> or is not a number; for every level in \<open>[0, 1]\<close>, the ends \<open>0\<close> and \<open>1\<close>
  included, it returns one quantile per asset.
\<close>

theorem calculate_var_range:
  "(0 \<le> q \<and> q \<le> 1 \<longrightarrow>
      calculate_var R (Fin q) = Inr (map (\<lambda>col. quantile_col col q) (series R)))
   \<and> (q < 0 \<or> 1 < q \<longrightarrow> calculate_var R (Fin q) = Inl ValueError)
   \<and> calculate_var R PInf = Inl ValueError
   \<and> calculate_var R NInf = Inl ValueError
   \<and> calculate_var R NaN = Inl ValueError"
  by (auto simp add: calculate_var_def)

theorem calculate_var_range_witness:
  "calculate_var \<lparr>ndates = 2, series = [[Fin 3, Fin 1], [Fin 0, Fin 2]]\<rparr> (Fin (5 / 100))
     = Inr [quantile_col [Fin 3, Fin 1] (5 / 100), quantile_col [Fin 0, Fin 2] (5 / 100)]
   \<and> calculate_var \<lparr>ndates = 2, series = [[Fin 3, Fin 1], [Fin 0, Fin 2]]\<rparr> (Fin 2) = Inl ValueError"
  using calculate_var_range [of "5 / 100" "\<lparr>ndates = 2, series = [[Fin 3, Fin 1], [Fin 0, Fin 2]]\<rparr>"]
    calculate_var_range [of 2 "\<lparr>ndates = 2, series = [[Fin 3, Fin 1], [Fin 0, Fin 2]]\<rparr>"]
  by simp

text \<open>
  The levels \<open>0\<close> and \<open>1\<close> are outside the open interval and are accepted: the result is
  the smallest and the largest return of the column.
\<close>

theorem calculate_var_accepts_endpoints:
  "calculate_var \<lparr>ndates = 2, series = [[Fin 3, Fin 1]]\<rparr> (Fin 0) = Inr [Fin 1]
   \<and> calculate_var \<lparr>ndates = 2, series = [[Fin 3, Fin 1]]\<rparr> (Fin 1) = Inr [Fin 3]"
  by (simp add: calculate_var_def quantile_col_def valid_def linear_quantile_def lerp_def fsub_def)

subsection \<open>The quantile\<close>

lemma np_insort_finite: "np_insort (Fin x) (map Fin ys) = map Fin (insort x ys)"
  by (induction ys) simp_all

lemma np_sort_finite: "np_sort (map Fin xs) = map Fin (sort xs)"
  by (induction xs) (simp_all add: np_insort_finite)

lemma lerp_finite: "lerp (Fin a) (Fin b) t = Fin (a + t * (b - a))"
  by (simp add: lerp_def fsub_def algebra_simps)

lemma linear_quantile_single:
  "linear_quantile [Fin x] q = Fin x"
  by (simp add: linear_quantile_def lerp_finite)

lemma linear_quantile_interior:
  fixes r :: "real list"
  assumes n: "2 \<le> length r" and q: "0 \<le> q" "q < 1"
  shows "nat \<lfloor>q * (real (length r) - 1)\<rfloor> + 1 < length r"
    and "linear_quantile (map Fin r) q =
         Fin (r ! nat \<lfloor>q * (real (length r) - 1)\<rfloor>
              + (q * (real (length r) - 1) - real (nat \<lfloor>q * (real (length r) - 1)\<rfloor>))
                * (r ! (nat \<lfloor>q * (real (length r) - 1)\<rfloor> + 1) - r ! nat \<lfloor>q * (real (length r) - 1)\<rfloor>))"
proof -
  define h where "h = q * (real (length r) - 1)"
  define j where "j = nat \<lfloor>h\<rfloor>"
  have m: "real (length r - 1) = real (length r) - 1"
    using n by (simp add: of_nat_diff)
  have pos: "0 < real (length r) - 1"
    using n by simp
  have h0: "0 \<le> h"
    unfolding h_def using q pos by simp
  have h1: "h < real (length r) - 1"
    unfolding h_def using q pos by simp
  have fl: "real_of_int \<lfloor>h\<rfloor> = real j"
    unfolding j_def using h0 by simp
  have "real j \<le> h"
    using fl of_int_floor_le [of h] by simp
  with h1 have "real j < real (length r) - 1"
    by linarith
  then have "real (j + 1) < real (length r)"
    by simp
  then show j1: "nat \<lfloor>q * (real (length r) - 1)\<rfloor> + 1 < length r"
    unfolding j_def h_def by (simp only: of_nat_less_iff)
  then have jn: "j + 1 < length r" "j < length r"
    by (simp_all add: j_def h_def)
  have hq: "real (length r - 1) * q = h"
    unfolding m h_def by (rule mult.commute)
  have "linear_quantile (map Fin r) q = lerp (Fin (r ! j)) (Fin (r ! (j + 1))) (h - real j)"
    unfolding linear_quantile_def length_map hq
    using h0 h1 jn fl by (simp add: j_def)
  then show "linear_quantile (map Fin r) q =
         Fin (r ! nat \<lfloor>q * (real (length r) - 1)\<rfloor>
              + (q * (real (length r) - 1) - real (nat \<lfloor>q * (real (length r) - 1)\<rfloor>))
                * (r ! (nat \<lfloor>q * (real (length r) - 1)\<rfloor> + 1) - r ! nat \<lfloor>q * (real (length r) - 1)\<rfloor>))"
    by (simp add: lerp_finite j_def h_def)
qed


text \<open>
  Claim C10: for an asset whose column holds \<open>n \<ge> 1\<close> finite returns and a level
  \<open>0 < q < 1\<close>, with \<open>r\<close> the column in ascending order, \<open>h = q * (n - 1)\<close> and
  \<open>j = floor h\<close>, the entry of \<open>calculate_var\<close> for that asset is
  \<open>r_j + (h - j) * (r_(j+1) - r_j)\<close>. The index \<open>j\<close> is in range, and so is \<open>j + 1\<close>
  as soon as \<open>n \<ge> 2\<close>; for \<open>n = 1\<close> the factor \<open>h - j\<close> is zero and the result is \<open>r_0\<close>.
\<close>

theorem calculate_var_linear_interpolation:
  fixes q :: real and xs r :: "real list"
  assumes col: "a < length (series R)" "series R ! a = map Fin xs"
    and ne: "xs \<noteq> []" and q: "0 < q" "q < 1"
    and r: "sorted r" "mset r = mset xs"
  shows "\<exists>vs. calculate_var R (Fin q) = Inr vs \<and> length vs = length (series R)
           \<and> nat \<lfloor>q * (real (length xs) - 1)\<rfloor> < length xs
           \<and> (2 \<le> length xs \<longrightarrow> nat \<lfloor>q * (real (length xs) - 1)\<rfloor> + 1 < length xs)
           \<and> vs ! a =
               Fin (r ! nat \<lfloor>q * (real (length xs) - 1)\<rfloor>
                    + (q * (real (length xs) - 1) - real (nat \<lfloor>q * (real (length xs) - 1)\<rfloor>))
                      * (r ! (nat \<lfloor>q * (real (length xs) - 1)\<rfloor> + 1)
                         - r ! nat \<lfloor>q * (real (length xs) - 1)\<rfloor>))"
proof -
  have sr: "sort xs = r"
    using r by (simp add: properties_for_sort)
  have len: "length r = length xs"
    using r(2) by (metis size_mset)
  have qc: "quantile_col (map Fin xs) q = linear_quantile (map Fin r) q"
    using ne by (simp add: quantile_col_def valid_finite np_sort_finite sr)
  have cv: "calculate_var R (Fin q) = Inr (map (\<lambda>col. quantile_col col q) (series R))"
    using q by (simp add: calculate_var_def)
  have va: "map (\<lambda>col. quantile_col col q) (series R) ! a = linear_quantile (map Fin r) q"
    using col qc by simp
  show ?thesis
  proof (cases "2 \<le> length xs")
    case True
    then have n2: "2 \<le> length r"
      by (simp add: len)
    from linear_quantile_interior [OF n2, of q] q
    show ?thesis
      by (simp add: cv va len)
  next
    case False
    then have "length xs < 2"
      by simp
    moreover have "length xs \<noteq> 0"
      using ne by simp
    ultimately have l1: "length xs = 1"
      by linarith
    then obtain x where x: "r = [x]"
      using len by (cases r) auto
    show ?thesis
      by (simp add: cv va l1 x linear_quantile_single)
  qed
qed

theorem calculate_var_linear_interpolation_witness:
  "\<exists>vs. calculate_var \<lparr>ndates = 3, series = [[Fin 3, Fin 1, Fin 2]]\<rparr> (Fin (1 / 4)) = Inr vs
      \<and> vs ! 0 = Fin (3 / 2)"
proof -
  have s: "sorted [1, 2, 3 :: real]" and m: "mset [1, 2, 3 :: real] = mset [3, 1, 2]"
    by simp_all
  have f: "\<lfloor>1 / 2 :: real\<rfloor> = 0"
    by simp
  from calculate_var_linear_interpolation
         [of 0 "\<lparr>ndates = 3, series = [[Fin 3, Fin 1, Fin 2]]\<rparr>" "[3, 1, 2]" "1 / 4" "[1, 2, 3]"]
  show ?thesis
    using s m by (auto simp add: f)
qed

end
